theory Spec2Isabelle
  imports Main "HOL-Library.Word" "HOL-Library.Signed_Division"
begin

unbundle bit_operations_syntax

section \<open>Machine types\<close>

text \<open>
  The C++ \<open>int\<close> of the consensus parameters is a 32-bit two's complement integer; it is
  modelled as a 32-bit word read through \<open>sint\<close> and compared with the signed orders
  \<open>\<le>s\<close> and \<open><s\<close>. \<open>uint32_t\<close> is a 32-bit word read through \<open>unat\<close>, and
  \<open>uint256\<close> is a 256-bit word whose \<open>IsNull\<close> is equality with zero.
\<close>

type_synonym int32 = "32 word"
type_synonym uint32 = "32 word"
type_synonym int64 = "64 word"
type_synonym uint256 = "256 word"

definition IsNull :: "uint256 \<Rightarrow> bool" where
  "IsNull h = (h = 0)"

section \<open>Consensus parameters (consensus/params.h)\<close>

text \<open>
  The proof-of-work fields of \<open>Consensus::Params\<close>, with the names of the source.
\<close>

record Params =
  powLimit :: uint256
  fPowAllowMinDifficultyBlocks :: bool
  fPowNoRetargeting :: bool
  nPowTargetSpacing :: int64
  nPowTargetTimespan :: int64
  nRandomXForkHeight :: int32
  nRandomXKeyBlockInterval :: int32
  powLimitRandomX :: uint256
  nArgon2EmergencyHeight :: int32
  nArgon2MemoryCost :: uint32
  nArgon2TimeCost :: uint32
  nArgon2Parallelism :: uint32
  powLimitArgon2 :: uint256

datatype PowAlgorithm = SHA256D | RANDOMX | ARGON2ID

text \<open>
  \<open>IsArgon2EmergencyActive\<close>:
  \<^verbatim>\<open>return nArgon2EmergencyHeight >= 0 && height >= nArgon2EmergencyHeight;\<close>
\<close>

definition IsArgon2EmergencyActive :: "Params \<Rightarrow> int32 \<Rightarrow> bool" where
  "IsArgon2EmergencyActive p height =
     (0 \<le>s nArgon2EmergencyHeight p \<and> nArgon2EmergencyHeight p \<le>s height)"

text \<open>
  \<open>IsRandomXActive\<close>:
  \<^verbatim>\<open>return height >= nRandomXForkHeight && !IsArgon2EmergencyActive(height);\<close>
\<close>

definition IsRandomXActive :: "Params \<Rightarrow> int32 \<Rightarrow> bool" where
  "IsRandomXActive p height =
     (nRandomXForkHeight p \<le>s height \<and> \<not> IsArgon2EmergencyActive p height)"

definition GetPowAlgorithm :: "Params \<Rightarrow> int32 \<Rightarrow> PowAlgorithm" where
  "GetPowAlgorithm p height =
     (if IsArgon2EmergencyActive p height then ARGON2ID
      else if IsRandomXActive p height then RANDOMX
      else SHA256D)"

text \<open>
  \<open>GetActivePowLimit\<close>: a switch on the selected algorithm; each of the two later
  algorithms falls back one step when its own limit is null.
\<close>

definition GetActivePowLimit :: "Params \<Rightarrow> int32 \<Rightarrow> uint256" where
  "GetActivePowLimit p height =
     (case GetPowAlgorithm p height of
        ARGON2ID \<Rightarrow> (if IsNull (powLimitArgon2 p) then powLimitRandomX p else powLimitArgon2 p)
      | RANDOMX \<Rightarrow> (if IsNull (powLimitRandomX p) then powLimit p else powLimitRandomX p)
      | SHA256D \<Rightarrow> powLimit p)"

text \<open>\<open>GetRandomXPowLimit\<close>, the legacy accessor, calls \<open>GetActivePowLimit\<close>.\<close>

definition GetRandomXPowLimit :: "Params \<Rightarrow> int32 \<Rightarrow> uint256" where
  "GetRandomXPowLimit p height = GetActivePowLimit p height"

subsection \<open>C++ \<open>int\<close> arithmetic\<close>

text \<open>
  Signed overflow and division by zero are undefined behaviour in C++. The model makes
  them visible: an \<open>int\<close> operation returns \<open>None\<close> where the C++ expression has no
  defined result and the 32-bit result otherwise. Division truncates towards zero
  (\<open>sdiv\<close> on the mathematical integers).
\<close>

definition int_result :: "int \<Rightarrow> int32 option" where
  "int_result v = (if - (2 ^ 31) \<le> v \<and> v < 2 ^ 31 then Some (word_of_int v) else None)"

definition int_div :: "int32 \<Rightarrow> int32 \<Rightarrow> int32 option" where
  "int_div a b = (if b = 0 then None else int_result (sint a sdiv sint b))"

definition int_mul :: "int32 \<Rightarrow> int32 \<Rightarrow> int32 option" where
  "int_mul a b = int_result (sint a * sint b)"

definition int_sub :: "int32 \<Rightarrow> int32 \<Rightarrow> int32 option" where
  "int_sub a b = int_result (sint a - sint b)"

text \<open>
  \<open>GetRandomXKeyBlockHeight\<close>:
  \<^verbatim>\<open>int keyHeight = (height / nRandomXKeyBlockInterval) * nRandomXKeyBlockInterval
                  - nRandomXKeyBlockInterval;
  return keyHeight >= 0 ? keyHeight : 0;\<close>
\<close>

definition GetRandomXKeyBlockHeight :: "Params \<Rightarrow> int32 \<Rightarrow> int32 option" where
  "GetRandomXKeyBlockHeight p height =
     (case int_div height (nRandomXKeyBlockInterval p) of
        None \<Rightarrow> None
      | Some q \<Rightarrow>
          (case int_mul q (nRandomXKeyBlockInterval p) of
             None \<Rightarrow> None
           | Some m \<Rightarrow>
               (case int_sub m (nRandomXKeyBlockInterval p) of
                  None \<Rightarrow> None
                | Some keyHeight \<Rightarrow> Some (if 0 \<le>s keyHeight then keyHeight else 0))))"

text \<open>
  The parameters of the test \<open>randomx_deactivates_when_argon2_active\<close>: RandomX forks
  at height 1 and the emergency fallback at height 100. The key interval and the Argon2
  costs are the defaults of the source; the limits and the target times are sample values
  (a non-null SHA256d limit, null RandomX and Argon2 limits).
\<close>

definition emergency_params :: Params where
  "emergency_params =
     \<lparr> powLimit = 1, fPowAllowMinDifficultyBlocks = False, fPowNoRetargeting = False,
       nPowTargetSpacing = 120, nPowTargetTimespan = 1209600,
       nRandomXForkHeight = 1, nRandomXKeyBlockInterval = 32, powLimitRandomX = 0,
       nArgon2EmergencyHeight = 100, nArgon2MemoryCost = 2097152, nArgon2TimeCost = 1,
       nArgon2Parallelism = 1, powLimitArgon2 = 0 \<rparr>"

section \<open>The Argon2id context (crypto/argon2_context.cpp)\<close>

text \<open>
  A C++ exception is a value: the class thrown and its message.
\<close>

datatype exception = invalid_argument string | runtime_error string

type_synonym byte = "8 word"

record Argon2Context =
  m_initialized :: bool
  m_memory_cost :: uint32
  m_time_cost :: uint32
  m_parallelism :: uint32

text \<open>
  The constructor. The source is compiled in one of two ways: with libsodium
  (\<open>USE_LIBSODIUM\<close> is 1) it calls \<open>sodium_init()\<close> after the three parameter checks and
  throws a \<open>runtime_error\<close> when the call returns a negative value; without libsodium
  there is no such call. The build flag and the value that \<open>sodium_init()\<close> returns are
  arguments of the model. The members are written by the initialiser list, and
  \<open>m_initialized\<close> becomes true only when no exception was thrown.
\<close>

definition Argon2Context_ctor ::
  "bool \<Rightarrow> int32 \<Rightarrow> uint32 \<Rightarrow> uint32 \<Rightarrow> uint32 \<Rightarrow> exception + Argon2Context" where
  "Argon2Context_ctor USE_LIBSODIUM sodium_init memory_cost time_cost parallelism =
     (if memory_cost < 8 then
        Inl (invalid_argument ''Argon2 memory_cost must be at least 8 KiB'')
      else if time_cost < 1 then
        Inl (invalid_argument ''Argon2 time_cost must be at least 1'')
      else if parallelism < 1 then
        Inl (invalid_argument ''Argon2 parallelism must be at least 1'')
      else if USE_LIBSODIUM \<and> sodium_init <s 0 then
        Inl (runtime_error ''Failed to initialize libsodium'')
      else
        Inr \<lparr> m_initialized = True, m_memory_cost = memory_cost,
              m_time_cost = time_cost, m_parallelism = parallelism \<rparr>)"

definition IsInitialized :: "Argon2Context \<Rightarrow> bool" where
  "IsInitialized ctx = m_initialized ctx"

definition GetMemoryCost :: "Argon2Context \<Rightarrow> uint32" where
  "GetMemoryCost ctx = m_memory_cost ctx"

definition GetTimeCost :: "Argon2Context \<Rightarrow> uint32" where
  "GetTimeCost ctx = m_time_cost ctx"

definition GetParallelism :: "Argon2Context \<Rightarrow> uint32" where
  "GetParallelism ctx = m_parallelism ctx"

text \<open>
  The bytes of an object in memory, least significant byte first: the four bytes that
  \<open>hasher.Write(reinterpret_cast<const unsigned char*>(&m_memory_cost), 4)\<close> reads on
  a little-endian machine, and the 32 bytes from \<open>salt.begin()\<close>.
\<close>

definition uint32_bytes :: "uint32 \<Rightarrow> byte list" where
  "uint32_bytes w = map (\<lambda>i. ucast (drop_bit (8 * i) w)) [0 ..< 4]"

definition uint256_bytes :: "uint256 \<Rightarrow> byte list" where
  "uint256_bytes w = map (\<lambda>i. ucast (drop_bit (8 * i) w)) [0 ..< 32]"

definition ARGON2_MAX_INPUT_SIZE :: nat where
  "ARGON2_MAX_INPUT_SIZE = 4 * 1024 * 1024"

definition HASH_LENGTH :: nat where
  "HASH_LENGTH = 32"

text \<open>
  \<open>CalculateHash\<close>. The two hash functions are not code of this repository's files and
  are arguments of the model: \<open>crypto_pwhash outlen passwd salt opslimit memlimit\<close> is
  libsodium's function with the algorithm fixed to \<open>crypto_pwhash_ALG_ARGON2ID13\<close>,
  returning its status and the bytes it wrote to \<open>result\<close>; \<open>CSHA256\<close> is the digest
  of all the bytes written to a \<open>CSHA256\<close> hasher, in order. \<open>memlimit\<close> is
  \<open>static_cast<size_t>(m_memory_cost) * 1024\<close>, which does not wrap for a 64-bit
  \<open>size_t\<close>. The mutex is not modelled.
\<close>

definition CalculateHash ::
  "bool \<Rightarrow> (nat \<Rightarrow> byte list \<Rightarrow> byte list \<Rightarrow> nat \<Rightarrow> nat \<Rightarrow> int32 \<times> uint256)
     \<Rightarrow> (byte list \<Rightarrow> uint256)
     \<Rightarrow> Argon2Context \<Rightarrow> byte list \<Rightarrow> uint256 \<Rightarrow> exception + uint256" where
  "CalculateHash USE_LIBSODIUM crypto_pwhash CSHA256 ctx data salt =
     (if \<not> m_initialized ctx then
        Inl (runtime_error ''Argon2 context not initialized'')
      else if length data > ARGON2_MAX_INPUT_SIZE then
        Inl (runtime_error ''Argon2 input exceeds maximum size'')
      else if USE_LIBSODIUM then
        (case crypto_pwhash HASH_LENGTH data (uint256_bytes salt)
                (unat (m_time_cost ctx)) (unat (m_memory_cost ctx) * 1024) of
           (ret, result) \<Rightarrow>
             if ret \<noteq> 0 then Inl (runtime_error ''Argon2id hash calculation failed'')
             else Inr result)
      else
        Inr (CSHA256 (data @ uint256_bytes salt @ uint32_bytes (m_memory_cost ctx)
                        @ uint32_bytes (m_time_cost ctx))))"

section \<open>The transaction input checker\<close>

text \<open>
  Modelled from the spec: the data of the input checker (the coin, transaction and view
  types are declared in files that are not among the repository's files), as the
  specification's data model gives them: an outpoint
  is a transaction id and an output index, a coin has a value, a script, a height and a
  coinbase flag, and the view answers \<open>get(outpoint)\<close> with a coin or nothing (a spent coin
  is absent). Values and heights are the mathematical integers of the specification's
  formulas.
\<close>

type_synonym outpoint = "uint256 \<times> uint32"

record Coin =
  coin_value :: int
  coin_script :: "byte list"
  coin_height :: int
  is_coinbase :: bool

record TxOut =
  out_value :: int
  out_script :: "byte list"

record Tx =
  inputs :: "outpoint list"
  outputs :: "TxOut list"

type_synonym utxo_view = "outpoint \<rightharpoonup> Coin"

datatype consensus_reason =
  INPUT_VALUES_OUT_OF_RANGE | VALUE_IN_BELOW_VALUE_OUT | FEE_OUT_OF_RANGE

datatype tx_error = MISSING_INPUTS | PREMATURE_SPEND | CONSENSUS consensus_reason

text \<open>\<open>COINBASE_MATURITY\<close> is exactly 100.\<close>

definition COINBASE_MATURITY :: int where
  "COINBASE_MATURITY = 100"

text \<open>
  Membership in \<open>[0, MAX_MONEY]\<close>. \<open>MAX_MONEY\<close>, a finite positive cap whose value
  neither the specification nor the repository's files give, is an argument.
\<close>

definition money_range :: "int \<Rightarrow> int \<Rightarrow> bool" where
  "money_range MAX_MONEY v = (0 \<le> v \<and> v \<le> MAX_MONEY)"

text \<open>
  Modelled from the spec: \<open>Consensus::CheckTxInputs\<close> (consensus/tx_verify.cpp) is not
  among the repository's files; only its tests are. This is the loop of steps 1 to 3 of
  the input checker's design: for each input in order, fetch the coin (absent or spent:
  \<open>MISSING_INPUTS\<close>); a coinbase coin with
  \<open>spend_height - coin.height < COINBASE_MATURITY\<close> is a \<open>PREMATURE_SPEND\<close>; then
  the value is added to \<open>sum_in\<close>, and a coin value or a running sum outside
  \<open>[0, MAX_MONEY]\<close> is a \<open>CONSENSUS\<close> error.
\<close>

fun check_inputs_loop ::
  "int \<Rightarrow> utxo_view \<Rightarrow> int \<Rightarrow> outpoint list \<Rightarrow> int \<Rightarrow> tx_error + int" where
  "check_inputs_loop MAX_MONEY view spend_height [] sum_in = Inr sum_in"
| "check_inputs_loop MAX_MONEY view spend_height (prevout # rest) sum_in =
     (case view prevout of
        None \<Rightarrow> Inl MISSING_INPUTS
      | Some coin \<Rightarrow>
          if is_coinbase coin \<and> spend_height - coin_height coin < COINBASE_MATURITY
          then Inl PREMATURE_SPEND
          else if \<not> money_range MAX_MONEY (coin_value coin)
                  \<or> \<not> money_range MAX_MONEY (sum_in + coin_value coin)
          then Inl (CONSENSUS INPUT_VALUES_OUT_OF_RANGE)
          else check_inputs_loop MAX_MONEY view spend_height rest (sum_in + coin_value coin))"

text \<open>The sum of the values of the outputs (step 4).\<close>

definition sum_out :: "Tx \<Rightarrow> int" where
  "sum_out tx = sum_list (map out_value (outputs tx))"

text \<open>
  Modelled from the spec: \<open>check_tx_inputs\<close>, steps 4 to 6 after the loop over the
  inputs: \<open>sum_in < sum_out\<close> is a \<open>CONSENSUS\<close> error, the fee is
  \<open>sum_in - sum_out\<close>, a fee outside \<open>[0, MAX_MONEY]\<close> is a \<open>CONSENSUS\<close> error,
  and the fee is returned otherwise.
\<close>

definition check_tx_inputs :: "int \<Rightarrow> Tx \<Rightarrow> utxo_view \<Rightarrow> int \<Rightarrow> tx_error + int" where
  "check_tx_inputs MAX_MONEY tx view spend_height =
     (case check_inputs_loop MAX_MONEY view spend_height (inputs tx) 0 of
        Inl e \<Rightarrow> Inl e
      | Inr sum_in \<Rightarrow>
          if sum_in < sum_out tx then Inl (CONSENSUS VALUE_IN_BELOW_VALUE_OUT)
          else if \<not> money_range MAX_MONEY (sum_in - sum_out tx)
          then Inl (CONSENSUS FEE_OUT_OF_RANGE)
          else Inr (sum_in - sum_out tx))"

text \<open>
  The conditions that the specification's testable properties name: every input's prevout
  is present in the view; the sum of the input values; every coinbase input is mature
  (\<open>spend_height - coin.height \<ge> 100\<close>); and, for the amended statement, every input
  coin's value lies in \<open>[0, MAX_MONEY]\<close>.
\<close>

definition inputs_present :: "utxo_view \<Rightarrow> Tx \<Rightarrow> bool" where
  "inputs_present view tx = list_all (\<lambda>prevout. view prevout \<noteq> None) (inputs tx)"

definition input_value :: "utxo_view \<Rightarrow> outpoint \<Rightarrow> int" where
  "input_value view prevout = (case view prevout of None \<Rightarrow> 0 | Some coin \<Rightarrow> coin_value coin)"

definition sum_in :: "utxo_view \<Rightarrow> Tx \<Rightarrow> int" where
  "sum_in view tx = sum_list (map (input_value view) (inputs tx))"

definition coin_mature :: "int \<Rightarrow> Coin \<Rightarrow> bool" where
  "coin_mature spend_height coin =
     (if is_coinbase coin then spend_height - coin_height coin \<ge> 100 else True)"

definition coinbase_inputs_mature :: "utxo_view \<Rightarrow> Tx \<Rightarrow> int \<Rightarrow> bool" where
  "coinbase_inputs_mature view tx spend_height =
     list_all (\<lambda>prevout. case view prevout of None \<Rightarrow> True
                                      | Some coin \<Rightarrow> coin_mature spend_height coin) (inputs tx)"

definition input_values_in_range :: "int \<Rightarrow> utxo_view \<Rightarrow> Tx \<Rightarrow> bool" where
  "input_values_in_range MAX_MONEY view tx =
     list_all (\<lambda>prevout. money_range MAX_MONEY (input_value view prevout)) (inputs tx)"

definition claimed_ok :: "int \<Rightarrow> Tx \<Rightarrow> utxo_view \<Rightarrow> int \<Rightarrow> bool" where
  "claimed_ok MAX_MONEY tx view spend_height =
     (inputs_present view tx
      \<and> sum_out tx \<le> sum_in view tx \<and> sum_in view tx \<le> MAX_MONEY
      \<and> coinbase_inputs_mature view tx spend_height)"

text \<open>
  The inputs of the tests \<open>coinbase_maturity_exactly_100\<close> and
  \<open>coinbase_maturity_one_short\<close> (a coinbase coin of 50 coins at height 100, spent to
  one output of 50 coins), and a view that holds a coin of negative value.
\<close>

definition COIN :: int where
  "COIN = 100000000"

definition coinbase_view :: utxo_view where
  "coinbase_view =
     [(1, 0) \<mapsto> \<lparr> coin_value = 50 * COIN, coin_script = [0x51], coin_height = 100,
                   is_coinbase = True \<rparr>]"

definition coinbase_spend :: Tx where
  "coinbase_spend =
     \<lparr> inputs = [(1, 0)], outputs = [\<lparr> out_value = 50 * COIN, out_script = [0x51] \<rparr>] \<rparr>"

definition negative_coin_view :: utxo_view where
  "negative_coin_view =
     [(1, 0) \<mapsto> \<lparr> coin_value = - 5, coin_script = [0x51], coin_height = 100,
                   is_coinbase = False \<rparr>,
      (1, 1) \<mapsto> \<lparr> coin_value = 10, coin_script = [0x51], coin_height = 100,
                   is_coinbase = False \<rparr>]"

definition negative_coin_spend :: Tx where
  "negative_coin_spend =
     \<lparr> inputs = [(1, 0), (1, 1)], outputs = [\<lparr> out_value = 5, out_script = [0x51] \<rparr>] \<rparr>"

section \<open>The difficulty engine\<close>













section \<open>The RandomX context pool (crypto/randomx_pool.h)\<close>

text \<open>
  The priority levels, the pool entry and the members of \<open>RandomXContextPool\<close> are
  those of the header. The unique pointer to the context of an entry is left out: the
  entry's \<open>key_hash\<close> is the key its context is initialised with. \<open>last_used\<close> is a
  time in seconds, and the \<open>size_t\<close> counters are natural numbers.
\<close>

datatype AcquisitionPriority = NORMAL | HIGH | CONSENSUS_CRITICAL

record PoolEntry =
  key_hash :: uint256
  last_used :: nat
  in_use :: bool

record RandomXContextPool =
  m_pool :: "PoolEntry list"
  m_max_contexts :: nat
  m_waiting_consensus_critical :: nat
  m_waiting_high :: nat
  m_waiting_normal :: nat
  m_total_acquisitions :: nat
  m_total_waits :: nat
  m_total_timeouts :: nat
  m_key_reinitializations :: nat
  m_consensus_critical_acquisitions :: nat
  m_high_priority_acquisitions :: nat
  m_priority_preemptions :: nat

text \<open>The constants of the header; the two timeouts are in seconds.\<close>

definition MAX_CONTEXTS :: nat where
  "MAX_CONTEXTS = 8"

definition ACQUIRE_TIMEOUT :: nat where
  "ACQUIRE_TIMEOUT = 30"

definition HIGH_PRIORITY_TIMEOUT :: nat where
  "HIGH_PRIORITY_TIMEOUT = 120"

text \<open>
  Modelled from the spec: the header declares \<open>GetTimeoutForPriority\<close> and the file that
  defines it (crypto/randomx_pool.cpp) is not among the repository's files.
  \<open>timeout(NORMAL) = 30 s\<close>, \<open>timeout(HIGH) = 120 s\<close>, and a consensus-critical wait is
  unbounded (\<open>None\<close>).
\<close>

definition GetTimeoutForPriority :: "AcquisitionPriority \<Rightarrow> nat option" where
  "GetTimeoutForPriority priority =
     (case priority of
        NORMAL \<Rightarrow> Some ACQUIRE_TIMEOUT
      | HIGH \<Rightarrow> Some HIGH_PRIORITY_TIMEOUT
      | CONSENSUS_CRITICAL \<Rightarrow> None)"

text \<open>
  Modelled from the spec: \<open>ShouldYieldToHigherPriority\<close> (declared in the header, defined
  in the missing randomx_pool.cpp), step 2a of the acquisition algorithm: a waiter
  yields when its priority is not \<open>CONSENSUS_CRITICAL\<close> and a consensus-critical waiter
  exists.
\<close>

definition ShouldYieldToHigherPriority :: "RandomXContextPool \<Rightarrow> AcquisitionPriority \<Rightarrow> bool" where
  "ShouldYieldToHigherPriority pool my_priority =
     (my_priority \<noteq> CONSENSUS_CRITICAL \<and> m_waiting_consensus_critical pool > 0)"

text \<open>
  Steps 1, 2e and 3: the count of waiters at the caller's priority goes up on entry and
  down on return.
\<close>

definition add_waiter :: "AcquisitionPriority \<Rightarrow> RandomXContextPool \<Rightarrow> RandomXContextPool" where
  "add_waiter priority pool =
     (case priority of
        NORMAL \<Rightarrow> pool \<lparr> m_waiting_normal := m_waiting_normal pool + 1 \<rparr>
      | HIGH \<Rightarrow> pool \<lparr> m_waiting_high := m_waiting_high pool + 1 \<rparr>
      | CONSENSUS_CRITICAL \<Rightarrow>
          pool \<lparr> m_waiting_consensus_critical := m_waiting_consensus_critical pool + 1 \<rparr>)"

definition remove_waiter :: "AcquisitionPriority \<Rightarrow> RandomXContextPool \<Rightarrow> RandomXContextPool" where
  "remove_waiter priority pool =
     (case priority of
        NORMAL \<Rightarrow> pool \<lparr> m_waiting_normal := m_waiting_normal pool - 1 \<rparr>
      | HIGH \<Rightarrow> pool \<lparr> m_waiting_high := m_waiting_high pool - 1 \<rparr>
      | CONSENSUS_CRITICAL \<Rightarrow>
          pool \<lparr> m_waiting_consensus_critical := m_waiting_consensus_critical pool - 1 \<rparr>)"

text \<open>
  The index of the first element that satisfies a predicate, and the least recently used
  free entry (the first one among equals).
\<close>

fun first_index :: "('a \<Rightarrow> bool) \<Rightarrow> 'a list \<Rightarrow> nat option" where
  "first_index P [] = None"
| "first_index P (x # xs) = (if P x then Some 0 else map_option Suc (first_index P xs))"

definition lru_free :: "PoolEntry list \<Rightarrow> nat option" where
  "lru_free es =
     (case filter (\<lambda>i. \<not> in_use (es ! i)) [0 ..< length es] of
        [] \<Rightarrow> None
      | i # rest \<Rightarrow> Some (arg_min_list (\<lambda>j. last_used (es ! j)) (i # rest)))"

text \<open>
  The MHP engine that creates and re-keys contexts is external. Its calls can fail
  (allocator, platform); \<open>engine now key\<close> tells whether \<open>new_context(key)\<close> or
  \<open>rekey(key)\<close>, called at time \<open>now\<close>, succeeds.
\<close>

type_synonym mhp_engine = "nat \<Rightarrow> uint256 \<Rightarrow> bool"

datatype slot = Slot nat RandomXContextPool | NoSlot | ConstructionFailed

text \<open>
  Modelled from the spec: \<open>FindOrCreateContext\<close> (declared in the header: the index of
  the context, or \<open>SIZE_MAX\<close>, here \<open>NoSlot\<close>, if none is available), steps 2b and 2c:
  the first free entry whose key equals the requested key is taken; else, if the pool
  holds fewer than \<open>max_contexts\<close> entries, a fresh context is created for the key;
  else the least recently used free entry is re-initialised for the key and
  \<open>key_reinitializations\<close> goes up; with every slot busy there is no index. A failure of
  the engine to construct or re-key the context is propagated as an error, and the slot is
  not consumed: the pool is left as it was.
\<close>

definition FindOrCreateContext ::
  "mhp_engine \<Rightarrow> uint256 \<Rightarrow> nat \<Rightarrow> RandomXContextPool \<Rightarrow> slot" where
  "FindOrCreateContext engine keyBlockHash now pool =
     (case first_index (\<lambda>e. \<not> in_use e \<and> key_hash e = keyBlockHash) (m_pool pool) of
        Some i \<Rightarrow>
          Slot i (pool \<lparr> m_pool := (m_pool pool) [i := (m_pool pool ! i) \<lparr> in_use := True \<rparr>] \<rparr>)
      | None \<Rightarrow>
          if length (m_pool pool) < m_max_contexts pool then
            (if engine now keyBlockHash then
               Slot (length (m_pool pool))
                 (pool \<lparr> m_pool := m_pool pool
                           @ [\<lparr> key_hash = keyBlockHash, last_used = now, in_use = True \<rparr>] \<rparr>)
             else ConstructionFailed)
          else
            (case lru_free (m_pool pool) of
               Some i \<Rightarrow>
                 if engine now keyBlockHash then
                   Slot i (pool \<lparr> m_pool := (m_pool pool)
                                   [i := (m_pool pool ! i) \<lparr> key_hash := keyBlockHash, in_use := True \<rparr>],
                                 m_key_reinitializations := m_key_reinitializations pool + 1 \<rparr>)
                 else ConstructionFailed
             | None \<Rightarrow> NoSlot))"

text \<open>
  Step 3 (a successful acquisition) and step 2e (a timeout).
\<close>

definition on_acquired :: "AcquisitionPriority \<Rightarrow> RandomXContextPool \<Rightarrow> RandomXContextPool" where
  "on_acquired priority pool =
     (let pool1 = (remove_waiter priority pool)
                    \<lparr> m_total_acquisitions := m_total_acquisitions pool + 1 \<rparr>
      in case priority of
           NORMAL \<Rightarrow> pool1
         | HIGH \<Rightarrow> pool1 \<lparr> m_high_priority_acquisitions := m_high_priority_acquisitions pool + 1 \<rparr>
         | CONSENSUS_CRITICAL \<Rightarrow>
             pool1 \<lparr> m_consensus_critical_acquisitions :=
                       m_consensus_critical_acquisitions pool + 1 \<rparr>)"

definition on_timeout :: "AcquisitionPriority \<Rightarrow> RandomXContextPool \<Rightarrow> RandomXContextPool" where
  "on_timeout priority pool =
     (remove_waiter priority pool) \<lparr> m_total_timeouts := m_total_timeouts pool + 1 \<rparr>"

text \<open>
  An acquisition is one thread's run through \<open>Acquire\<close>. Between two of its waits the
  thread holds the pool mutex, so the other threads act only while it waits on a condition
  variable. Each wait of the thread is described by a \<open>wake\<close>: the seconds that pass until
  the thread is notified (or wakes spuriously), and what the other threads did to the pool
  in the meantime. A timed wait whose notification does not arrive before the timeout ends
  as a timeout. The list of wakes is the part of the environment's behaviour that is
  given; when it is used up while the thread waits, the outcome is \<open>Blocked\<close>: the call
  has not completed within the given behaviour. A completed call has \<open>Returned\<close> the
  index of the guarded entry or \<open>None\<close>, or has \<open>Failed\<close> with the engine's error.
\<close>

datatype acquisition = Returned "nat option" | Failed | Blocked

type_synonym wake = "nat \<times> (RandomXContextPool \<Rightarrow> RandomXContextPool)"

definition timed_out :: "AcquisitionPriority \<Rightarrow> nat \<Rightarrow> bool" where
  "timed_out priority elapsed =
     (case GetTimeoutForPriority priority of None \<Rightarrow> False | Some t \<Rightarrow> t \<le> elapsed)"

text \<open>
  Step 2a: a waiter that has to yield waits on the priority condition variable until it
  is signalled; a NORMAL waiter that yields is counted in \<open>priority_preemptions\<close>.
\<close>

definition yield_step ::
  "AcquisitionPriority \<Rightarrow> nat \<Rightarrow> RandomXContextPool \<Rightarrow> wake list
     \<Rightarrow> (nat \<times> RandomXContextPool \<times> wake list) option" where
  "yield_step priority now pool wakes =
     (if ShouldYieldToHigherPriority pool priority then
        (case wakes of
           [] \<Rightarrow> None
         | (elapsed, others) # rest \<Rightarrow>
             Some (now + elapsed,
                   others (if priority = NORMAL
                           then pool \<lparr> m_priority_preemptions := m_priority_preemptions pool + 1 \<rparr>
                           else pool),
                   rest))
      else Some (now, pool, wakes))"

lemma yield_step_length:
  "yield_step priority now pool wakes = Some (now', pool', wakes') \<Longrightarrow> length wakes' \<le> length wakes"
  by (auto simp: yield_step_def split: if_splits list.splits)

text \<open>
  Modelled from the spec: the loop of \<open>RandomXContextPool::Acquire\<close> (its body is in the
  missing randomx_pool.cpp), step 2 of the acquisition algorithm: yield to a higher
  priority (2a); take or materialise a slot and return its guard (2b, 2c, 3), or propagate
  the engine's error; else wait on the general condition variable up to \<open>timeout(P)\<close>,
  untimed for \<open>CONSENSUS_CRITICAL\<close>, and loop on a wake (2d); on timeout return
  \<open>None\<close> (2e).
\<close>

function acquire_loop ::
  "mhp_engine \<Rightarrow> uint256 \<Rightarrow> AcquisitionPriority \<Rightarrow> nat \<Rightarrow> RandomXContextPool \<Rightarrow> wake list
     \<Rightarrow> acquisition \<times> RandomXContextPool" where
  "acquire_loop engine keyBlockHash priority now pool wakes =
     (case yield_step priority now pool wakes of
        None \<Rightarrow> (Blocked, pool)
      | Some (now1, pool1, wakes1) \<Rightarrow>
          (case FindOrCreateContext engine keyBlockHash now1 pool1 of
             Slot index pool2 \<Rightarrow> (Returned (Some index), on_acquired priority pool2)
           | ConstructionFailed \<Rightarrow> (Failed, pool1)
           | NoSlot \<Rightarrow>
               (case wakes1 of
                  [] \<Rightarrow> (Blocked, pool1 \<lparr> m_total_waits := m_total_waits pool1 + 1 \<rparr>)
                | (elapsed, others) # wakes2 \<Rightarrow>
                    if timed_out priority elapsed then
                      (Returned None,
                       on_timeout priority
                         (others (pool1 \<lparr> m_total_waits := m_total_waits pool1 + 1 \<rparr>)))
                    else
                      acquire_loop engine keyBlockHash priority (now1 + elapsed)
                        (others (pool1 \<lparr> m_total_waits := m_total_waits pool1 + 1 \<rparr>)) wakes2)))"
  by pat_completeness auto
termination
  by (relation "measure (\<lambda>(e, k, p, n, pool, wakes). length wakes)")
     (auto dest: yield_step_length)

text \<open>
  Modelled from the spec: \<open>Acquire\<close>: step 1 records the waiter, then the loop runs.
\<close>

definition Acquire ::
  "mhp_engine \<Rightarrow> uint256 \<Rightarrow> AcquisitionPriority \<Rightarrow> nat \<Rightarrow> RandomXContextPool \<Rightarrow> wake list
     \<Rightarrow> acquisition \<times> RandomXContextPool" where
  "Acquire engine keyBlockHash priority now pool wakes =
     acquire_loop engine keyBlockHash priority now (add_waiter priority pool) wakes"


text \<open>
  A pool before its first acquisition, the pool of the scenario "pool exhaustion"
  (\<open>max_contexts = 2\<close> and both entries held by guards), an engine that always succeeds
  and one that always fails.
\<close>

definition empty_pool :: "nat \<Rightarrow> RandomXContextPool" where
  "empty_pool max_contexts =
     \<lparr> m_pool = [], m_max_contexts = max_contexts, m_waiting_consensus_critical = 0,
       m_waiting_high = 0, m_waiting_normal = 0, m_total_acquisitions = 0, m_total_waits = 0,
       m_total_timeouts = 0, m_key_reinitializations = 0, m_consensus_critical_acquisitions = 0,
       m_high_priority_acquisitions = 0, m_priority_preemptions = 0 \<rparr>"



definition failing_engine :: mhp_engine where
  "failing_engine now keyBlockHash = False"

section \<open>The algorithm selector\<close>

text \<open>
  C1. For every height and every parameter set, \<open>GetPowAlgorithm\<close> returns ARGON2ID
  when the emergency height is non-negative and reached; otherwise RANDOMX (the
  memory-hard algorithm) when the fork height is reached; otherwise SHA256D. With the fork
  at height 1 and the emergency at height 100 it returns RANDOMX at height 99 and ARGON2ID
  at heights 100 and 200. The first part needs no assumption on the height, so it holds
  in particular for every height \<open>H \<ge> 0\<close>.
\<close>

theorem GetPowAlgorithm_selector:
  "GetPowAlgorithm p H =
     (if 0 \<le>s nArgon2EmergencyHeight p \<and> nArgon2EmergencyHeight p \<le>s H then ARGON2ID
      else if nRandomXForkHeight p \<le>s H then RANDOMX
      else SHA256D)
   \<and> (nRandomXForkHeight p = 1 \<and> nArgon2EmergencyHeight p = 100 \<longrightarrow>
        GetPowAlgorithm p 99 = RANDOMX \<and> GetPowAlgorithm p 100 = ARGON2ID
        \<and> GetPowAlgorithm p 200 = ARGON2ID)"
  by (simp add: GetPowAlgorithm_def IsArgon2EmergencyActive_def IsRandomXActive_def word_sle_eq)

theorem GetPowAlgorithm_selector_witness:
  "nRandomXForkHeight emergency_params = 1 \<and> nArgon2EmergencyHeight emergency_params = 100
   \<and> GetPowAlgorithm emergency_params 0 = SHA256D
   \<and> GetPowAlgorithm emergency_params 99 = RANDOMX
   \<and> GetPowAlgorithm emergency_params 100 = ARGON2ID
   \<and> GetPowAlgorithm emergency_params 200 = ARGON2ID"
  using GetPowAlgorithm_selector [of emergency_params 0]
  by (simp add: emergency_params_def word_sle_eq)

section \<open>The legacy limit accessor\<close>

text \<open>
  C9. For every height, the legacy accessor \<open>GetRandomXPowLimit\<close> returns exactly the
  limit that \<open>GetActivePowLimit\<close> returns: the two functions are equal.
\<close>

theorem GetRandomXPowLimit_eq_GetActivePowLimit:
  "GetRandomXPowLimit = GetActivePowLimit"
  by (simp add: fun_eq_iff GetRandomXPowLimit_def)

section \<open>A negative emergency height\<close>

text \<open>
  C10. For every negative value of \<open>nArgon2EmergencyHeight\<close> (not only -1) and every
  height (so for every height \<open>H \<ge> 0\<close>), \<open>IsArgon2EmergencyActive\<close> is false, and
  the selector does not return ARGON2ID.
\<close>

theorem negative_emergency_height_never_active:
  assumes "nArgon2EmergencyHeight p <s 0"
  shows "\<not> IsArgon2EmergencyActive p H \<and> GetPowAlgorithm p H \<noteq> ARGON2ID"
  using assms
  by (auto simp: IsArgon2EmergencyActive_def GetPowAlgorithm_def word_sle_eq word_sless_alt)

theorem negative_emergency_height_never_active_witness:
  "nArgon2EmergencyHeight (emergency_params \<lparr> nArgon2EmergencyHeight := - 7 \<rparr>) <s 0
   \<and> \<not> IsArgon2EmergencyActive (emergency_params \<lparr> nArgon2EmergencyHeight := - 7 \<rparr>) 1000000
   \<and> GetPowAlgorithm (emergency_params \<lparr> nArgon2EmergencyHeight := - 7 \<rparr>) 1000000 = RANDOMX"
proof -
  let ?p = "emergency_params \<lparr> nArgon2EmergencyHeight := - 7 \<rparr>"
  have neg: "nArgon2EmergencyHeight ?p <s 0"
    by (simp add: emergency_params_def word_sless_alt)
  have alg: "GetPowAlgorithm ?p 1000000 = RANDOMX"
    by (simp add: GetPowAlgorithm_def IsArgon2EmergencyActive_def IsRandomXActive_def
        emergency_params_def word_sle_eq)
  from negative_emergency_height_never_active [OF neg, of 1000000] neg alg
  show ?thesis by simp
qed

section \<open>The active limit\<close>

text \<open>
  What \<open>GetActivePowLimit\<close> returns, case by case: the limit of the selected algorithm,
  or the limit one step down the chain when that limit is null.
\<close>

lemma GetActivePowLimit_cases:
  "GetActivePowLimit p H =
     (if GetPowAlgorithm p H = ARGON2ID
      then (if powLimitArgon2 p = 0 then powLimitRandomX p else powLimitArgon2 p)
      else if GetPowAlgorithm p H = RANDOMX
      then (if powLimitRandomX p = 0 then powLimit p else powLimitRandomX p)
      else powLimit p)"
  by (cases "GetPowAlgorithm p H") (simp_all add: GetActivePowLimit_def IsNull_def)

lemma GetActivePowLimit_not_null:
  assumes "\<not> IsNull (powLimit p)"
    and "GetPowAlgorithm p H = ARGON2ID \<Longrightarrow> IsNull (powLimitArgon2 p) \<Longrightarrow> \<not> IsNull (powLimitRandomX p)"
  shows "\<not> IsNull (GetActivePowLimit p H)"
  using assms by (cases "GetPowAlgorithm p H") (auto simp: GetActivePowLimit_def IsNull_def)

text \<open>
  C3. The claim says that the active limit is non-null at every height, also when both
  \<open>powLimitArgon2\<close> and \<open>powLimitRandomX\<close> are null. The ARGON2ID branch falls back to
  \<open>powLimitRandomX\<close> without testing it, while the RANDOMX branch tests the same field
  before returning it: with the emergency active and both limits null the function returns
  the null \<open>powLimitRandomX\<close> although \<open>powLimit\<close> is non-null.
\<close>

theorem GetActivePowLimit_null_when_both_null:
  "\<not> IsNull (powLimit emergency_params)
   \<and> IsNull (powLimitRandomX emergency_params)
   \<and> IsNull (powLimitArgon2 emergency_params)
   \<and> GetPowAlgorithm emergency_params 100 = ARGON2ID
   \<and> IsNull (GetActivePowLimit emergency_params 100)"
  by (simp add: GetActivePowLimit_def GetPowAlgorithm_def IsArgon2EmergencyActive_def
      IsNull_def emergency_params_def word_sle_eq)

section \<open>The RandomX key height\<close>

lemma int_result_ok:
  assumes "- (2 ^ 31) \<le> v" and "v < 2 ^ 31"
  shows "\<exists>w. int_result v = Some w \<and> sint w = v"
  using assms by (simp add: int_result_def sint_sbintrunc' signed_take_bit_int_eq_self)

lemma sint_32_bounds: "- (2 ^ 31) \<le> sint (w :: int32) \<and> sint w < 2 ^ 31"
  using sint_ge [of w] sint_lt [of w] by simp

lemma sdiv_nonneg: "0 \<le> a \<Longrightarrow> 0 < b \<Longrightarrow> a sdiv b = a div (b :: int)"
  by (simp add: signed_divide_int_def sgn_if)

lemma div_mult_le_int: "0 < (i::int) \<Longrightarrow> h div i * i \<le> h"
  using div_mult_mod_eq [of h i] pos_mod_sign [of i h] by linarith

lemma key_height_value:
  assumes H: "0 \<le>s H" and I: "0 <s nRandomXKeyBlockInterval p"
  shows "\<exists>k. GetRandomXKeyBlockHeight p H = Some k
           \<and> sint k = max 0 ((sint H div sint (nRandomXKeyBlockInterval p))
                   * sint (nRandomXKeyBlockInterval p) - sint (nRandomXKeyBlockInterval p))"
proof -
  define h where "h = sint H"
  define i where "i = sint (nRandomXKeyBlockInterval p)"
  have h0: "0 \<le> h" using H by (simp add: h_def word_sle_eq)
  have i0: "0 < i" using I by (simp add: i_def word_sless_alt)
  have hb: "h < 2 ^ 31" using sint_32_bounds [of H] by (simp add: h_def)
  have ib: "i < 2 ^ 31" using sint_32_bounds [of "nRandomXKeyBlockInterval p"] by (simp add: i_def)
  have ne: "nRandomXKeyBlockInterval p \<noteq> 0" using i0 by (auto simp: i_def)
  define q where "q = h div i"
  have q0: "0 \<le> q" using h0 i0 by (simp add: q_def pos_imp_zdiv_nonneg_iff)
  have qh: "q * i \<le> h" using i0 by (simp add: q_def div_mult_le_int)
  have qle: "q \<le> h"
  proof -
    have "q * 1 \<le> q * i" using q0 i0 by (intro mult_left_mono) auto
    with qh show ?thesis by simp
  qed
  have m0: "0 \<le> q * i" using q0 i0 by simp
  have "sint H sdiv sint (nRandomXKeyBlockInterval p) = q"
    using h0 i0 by (simp add: sdiv_nonneg h_def [symmetric] i_def [symmetric] q_def)
  moreover obtain qw where "int_result q = Some qw" and sq: "sint qw = q"
    using int_result_ok [of q] q0 qle hb by auto
  ultimately have d: "int_div H (nRandomXKeyBlockInterval p) = Some qw"
    using ne by (simp add: int_div_def)
  obtain mw where "int_result (q * i) = Some mw" and sm: "sint mw = q * i"
    using int_result_ok [of "q * i"] m0 qh hb by auto
  then have m: "int_mul qw (nRandomXKeyBlockInterval p) = Some mw"
    by (simp add: int_mul_def sq i_def [symmetric])
  obtain kw where "int_result (q * i - i) = Some kw" and sk: "sint kw = q * i - i"
    using int_result_ok [of "q * i - i"] m0 qh hb i0 ib by auto
  then have s: "int_sub mw (nRandomXKeyBlockInterval p) = Some kw"
    by (simp add: int_sub_def sm i_def [symmetric])
  have r: "GetRandomXKeyBlockHeight p H = Some (if 0 \<le>s kw then kw else 0)"
    by (simp add: GetRandomXKeyBlockHeight_def d m s)
  have "sint (if 0 \<le>s kw then kw else 0) = max 0 (q * i - i)"
    by (simp add: word_sle_eq sk max_def)
  with r show ?thesis
    by (simp add: q_def h_def i_def)
qed

text \<open>
  C5. For every height \<open>H \<ge> 0\<close> and key interval \<open>> 0\<close> the computation of the key
  height has no overflow and no division by zero, and returns
  \<open>max 0 ((H div interval) * interval - interval)\<close>. Consequently the key height lies
  between 0 and \<open>H\<close>, is a multiple of the key interval (0 included), and is 0 for every
  \<open>H\<close> in \<open>[0, 2 * interval - 1]\<close>.
\<close>

theorem key_height_formula:
  assumes H: "0 \<le>s H" and I: "0 <s nRandomXKeyBlockInterval p"
  shows "\<exists>k. GetRandomXKeyBlockHeight p H = Some k
           \<and> sint k = max 0 ((sint H div sint (nRandomXKeyBlockInterval p))
                   * sint (nRandomXKeyBlockInterval p) - sint (nRandomXKeyBlockInterval p))
           \<and> 0 \<le> sint k \<and> sint k \<le> sint H
           \<and> sint (nRandomXKeyBlockInterval p) dvd sint k
           \<and> (sint H \<le> 2 * sint (nRandomXKeyBlockInterval p) - 1 \<longrightarrow> k = 0)"
proof -
  define h where "h = sint H"
  define i where "i = sint (nRandomXKeyBlockInterval p)"
  define v where "v = max 0 ((h div i) * i - i)"
  have h0: "0 \<le> h" using H by (simp add: h_def word_sle_eq)
  have i0: "0 < i" using I by (simp add: i_def word_sless_alt)
  have qh: "(h div i) * i \<le> h" using i0 by (rule div_mult_le_int)
  have v0: "0 \<le> v" by (simp add: v_def)
  have vh: "v \<le> h" using qh i0 h0 by (simp add: v_def)
  have dv: "i dvd v"
  proof -
    have "(h div i) * i - i = (h div i - 1) * i" by (simp add: algebra_simps)
    then show ?thesis by (auto simp: v_def max_def)
  qed
  have small: "v = 0" if "h \<le> 2 * i - 1"
  proof -
    have "h div i \<le> 1"
    proof (rule ccontr)
      assume "\<not> h div i \<le> 1"
      then have "2 \<le> h div i" by simp
      then have "2 * i \<le> (h div i) * i" using i0 by (intro mult_right_mono) auto
      with qh that show False by simp
    qed
    then have "(h div i) * i \<le> 1 * i" using i0 by (intro mult_right_mono) auto
    then show ?thesis by (simp add: v_def)
  qed
  obtain k where val: "GetRandomXKeyBlockHeight p H = Some k" and sk: "sint k = v"
    using key_height_value [OF H I] by (auto simp: v_def h_def i_def)
  have zero: "k = 0" if "h \<le> 2 * i - 1"
    using small [OF that] sk by (simp add: signed_eq_0_iff)
  show ?thesis
    using val sk v0 vh dv zero
    by (intro exI [of _ k]) (simp add: v_def h_def i_def)
qed

theorem key_height_formula_witness:
  "(0 :: int32) \<le>s 100 \<and> 0 <s nRandomXKeyBlockInterval emergency_params
   \<and> GetRandomXKeyBlockHeight emergency_params 100 = Some 64
   \<and> GetRandomXKeyBlockHeight emergency_params 63 = Some 0"
proof -
  have a: "(0 :: int32) \<le>s 100" by (simp add: word_sle_eq)
  have b: "0 <s nRandomXKeyBlockInterval emergency_params"
    by (simp add: emergency_params_def word_sless_alt)
  have c: "GetRandomXKeyBlockHeight emergency_params 100 = Some 64"
    by (simp add: GetRandomXKeyBlockHeight_def emergency_params_def int_div_def int_mul_def
        int_sub_def int_result_def signed_divide_int_def word_sle_eq)
  have d: "GetRandomXKeyBlockHeight emergency_params 63 = Some 0"
    by (simp add: GetRandomXKeyBlockHeight_def emergency_params_def int_div_def int_mul_def
        int_sub_def int_result_def signed_divide_int_def word_sle_eq)
  from key_height_formula [OF a b] a b c d show ?thesis by simp
qed

section \<open>Construction of the Argon2id context\<close>

lemma Argon2Context_ctor_invalid_argument:
  "(\<exists>msg. Argon2Context_ctor USE_LIBSODIUM sodium_init mc tc par = Inl (invalid_argument msg))
     = (mc < 8 \<or> tc < 1 \<or> par < 1)"
  by (simp add: Argon2Context_ctor_def)

text \<open>
  C8, as the claim states it, fails in a build with libsodium: with all three parameters
  in range the constructor still throws (a \<open>runtime_error\<close>) when \<open>sodium_init()\<close>
  returns a negative value.
\<close>

theorem Argon2Context_ctor_sodium_init_failure:
  "\<not> ((8 :: uint32) < 8 \<or> (1 :: uint32) < 1 \<or> (1 :: uint32) < 1)
   \<and> Argon2Context_ctor True (- 1) 8 1 1 = Inl (runtime_error ''Failed to initialize libsodium'')"
  by (simp add: Argon2Context_ctor_def word_sless_alt)

text \<open>
  C8, amended. The constructor throws the parameter-validation error
  (\<open>invalid_argument\<close>) exactly when \<open>memory_cost < 8\<close>, \<open>time_cost < 1\<close> or
  \<open>parallelism < 1\<close>. With all three in range it throws a \<open>runtime_error\<close> when the build
  uses libsodium and \<open>sodium_init()\<close> returns a negative value, and succeeds otherwise
  (always, in a build without libsodium); the context then reports itself initialized and
  holds the three parameters.
\<close>

theorem Argon2Context_ctor_outcome:
  "((\<exists>msg. Argon2Context_ctor USE_LIBSODIUM sodium_init mc tc par = Inl (invalid_argument msg))
      = (mc < 8 \<or> tc < 1 \<or> par < 1))
   \<and> (\<not> (mc < 8 \<or> tc < 1 \<or> par < 1) \<longrightarrow>
        (if USE_LIBSODIUM \<and> sodium_init <s 0
         then Argon2Context_ctor USE_LIBSODIUM sodium_init mc tc par
                = Inl (runtime_error ''Failed to initialize libsodium'')
         else \<exists>ctx. Argon2Context_ctor USE_LIBSODIUM sodium_init mc tc par = Inr ctx
                \<and> IsInitialized ctx \<and> GetMemoryCost ctx = mc \<and> GetTimeCost ctx = tc
                \<and> GetParallelism ctx = par))"
  by (simp add: Argon2Context_ctor_def IsInitialized_def GetMemoryCost_def GetTimeCost_def
      GetParallelism_def)

theorem Argon2Context_ctor_outcome_witness:
  "\<not> ((65536 :: uint32) < 8 \<or> (1 :: uint32) < 1 \<or> (1 :: uint32) < 1)
   \<and> Argon2Context_ctor False 0 65536 1 1
       = Inr \<lparr> m_initialized = True, m_memory_cost = 65536, m_time_cost = 1, m_parallelism = 1 \<rparr>
   \<and> Argon2Context_ctor False 0 0 1 1
       = Inl (invalid_argument ''Argon2 memory_cost must be at least 8 KiB'')
   \<and> Argon2Context_ctor False 0 65536 0 1
       = Inl (invalid_argument ''Argon2 time_cost must be at least 1'')
   \<and> Argon2Context_ctor False 0 65536 1 0
       = Inl (invalid_argument ''Argon2 parallelism must be at least 1'')"
  using Argon2Context_ctor_outcome [of False 0 65536 1 1]
  by (simp add: Argon2Context_ctor_def)

section \<open>Hashing with the Argon2id context\<close>

text \<open>
  Two calls with the same context, bytes and salt return the same result, whatever the
  two hash functions are: \<open>CalculateHash\<close> is a function of its arguments.
\<close>

lemma CalculateHash_depends_on:
  assumes "m_initialized ctx = m_initialized ctx'"
    and "m_memory_cost ctx = m_memory_cost ctx'"
    and "m_time_cost ctx = m_time_cost ctx'"
  shows "CalculateHash USE_LIBSODIUM crypto_pwhash CSHA256 ctx data salt
           = CalculateHash USE_LIBSODIUM crypto_pwhash CSHA256 ctx' data salt"
  using assms by (simp add: CalculateHash_def)

text \<open>
  C7. The claim says that changing any one of the three parameters changes the digest.
  Neither branch of \<open>CalculateHash\<close> reads \<open>m_parallelism\<close>: the libsodium call passes
  the time and the memory cost only, and the fallback writes the memory cost and the time
  cost to the hasher and stops. Two contexts that differ in the parallelism alone return
  the same digest for every input, in both builds and for every pair of hash functions; in
  particular the contexts built with (65536, 1, 1) and (65536, 1, 2) agree on the bytes
  01 02 03 04 with salt 1.
\<close>

theorem CalculateHash_ignores_parallelism:
  "CalculateHash USE_LIBSODIUM crypto_pwhash CSHA256 (ctx \<lparr> m_parallelism := a \<rparr>) data salt
     = CalculateHash USE_LIBSODIUM crypto_pwhash CSHA256 (ctx \<lparr> m_parallelism := b \<rparr>) data salt
   \<and> Argon2Context_ctor False 0 65536 1 1
       = Inr \<lparr> m_initialized = True, m_memory_cost = 65536, m_time_cost = 1, m_parallelism = 1 \<rparr>
   \<and> Argon2Context_ctor False 0 65536 1 2
       = Inr \<lparr> m_initialized = True, m_memory_cost = 65536, m_time_cost = 1, m_parallelism = 2 \<rparr>
   \<and> CalculateHash USE_LIBSODIUM crypto_pwhash CSHA256
         \<lparr> m_initialized = True, m_memory_cost = 65536, m_time_cost = 1, m_parallelism = 1 \<rparr>
         [1, 2, 3, 4] 1
       = CalculateHash USE_LIBSODIUM crypto_pwhash CSHA256
         \<lparr> m_initialized = True, m_memory_cost = 65536, m_time_cost = 1, m_parallelism = 2 \<rparr>
         [1, 2, 3, 4] 1"
  by (simp add: CalculateHash_def Argon2Context_ctor_def)

section \<open>The transaction input checker: success and fee\<close>

lemma loop_result:
  "check_inputs_loop M view h ins acc = Inr s \<Longrightarrow> s = acc + sum_list (map (input_value view) ins)"
proof (induction ins arbitrary: acc)
  case Nil
  then show ?case by simp
next
  case (Cons prevout rest)
  then obtain coin where c: "view prevout = Some coin"
    and r: "check_inputs_loop M view h rest (acc + coin_value coin) = Inr s"
    by (auto split: option.splits if_splits)
  from Cons.IH [OF r] show ?case
    by (simp add: input_value_def c)
qed

lemma sum_nonneg:
  "list_all (\<lambda>prevout. money_range M (input_value view prevout)) ins
     \<Longrightarrow> 0 \<le> sum_list (map (input_value view) ins)"
  by (induction ins) (auto simp: money_range_def)

lemma loop_ok_iff:
  "0 \<le> acc \<Longrightarrow> acc \<le> M \<Longrightarrow>
   (\<exists>s. check_inputs_loop M view h ins acc = Inr s) =
     (list_all (\<lambda>prevout. view prevout \<noteq> None) ins
      \<and> list_all (\<lambda>prevout. case view prevout of None \<Rightarrow> True
                                      | Some coin \<Rightarrow> coin_mature h coin) ins
      \<and> list_all (\<lambda>prevout. money_range M (input_value view prevout)) ins
      \<and> acc + sum_list (map (input_value view) ins) \<le> M)"
proof (induction ins arbitrary: acc)
  case Nil
  then show ?case by simp
next
  case (Cons prevout rest)
  show ?case
  proof (cases "view prevout")
    case None
    then show ?thesis by simp
  next
    case (Some coin)
    let ?v = "coin_value coin"
    have iv: "input_value view prevout = ?v" by (simp add: input_value_def Some)
    show ?thesis
    proof (cases "coin_mature h coin \<and> money_range M ?v \<and> money_range M (acc + ?v)")
      case True
      then have nn: "0 \<le> acc + ?v" and le: "acc + ?v \<le> M" by (simp_all add: money_range_def)
      have step: "check_inputs_loop M view h (prevout # rest) acc
                    = check_inputs_loop M view h rest (acc + ?v)"
        using True by (auto simp: Some coin_mature_def COINBASE_MATURITY_def split: if_splits)
      show ?thesis
        unfolding step Cons.IH [OF nn le]
        using True sum_nonneg [of M view rest]
        by (auto simp: Some iv money_range_def)
    next
      case False
      then have fail: "\<not> (\<exists>s. check_inputs_loop M view h (prevout # rest) acc = Inr s)"
        by (auto simp: Some coin_mature_def COINBASE_MATURITY_def split: if_splits)
      have "\<not> (coin_mature h coin \<and> money_range M ?v
                \<and> list_all (\<lambda>prevout. money_range M (input_value view prevout)) rest
                \<and> acc + (?v + sum_list (map (input_value view) rest)) \<le> M)"
      proof
        assume a: "coin_mature h coin \<and> money_range M ?v
                \<and> list_all (\<lambda>prevout. money_range M (input_value view prevout)) rest
                \<and> acc + (?v + sum_list (map (input_value view) rest)) \<le> M"
        then have "0 \<le> sum_list (map (input_value view) rest)" using sum_nonneg by blast
        with a Cons.prems have "money_range M (acc + ?v)" by (simp add: money_range_def)
        with a False show False by simp
      qed
      with fail show ?thesis by (auto simp: Some iv)
    qed
  qed
qed

lemma check_ok_iff:
  "(\<exists>fee. check_tx_inputs M tx view h = Inr fee) =
     (inputs_present view tx \<and> input_values_in_range M view tx
      \<and> sum_out tx \<le> sum_in view tx \<and> sum_in view tx \<le> M
      \<and> sum_in view tx - sum_out tx \<le> M
      \<and> coinbase_inputs_mature view tx h)"
proof (cases "0 \<le> M")
  case True
  have loop: "(\<exists>s. check_inputs_loop M view h (inputs tx) 0 = Inr s) =
     (inputs_present view tx \<and> coinbase_inputs_mature view tx h
      \<and> input_values_in_range M view tx \<and> sum_in view tx \<le> M)"
    using loop_ok_iff [of 0 M view h "inputs tx"] True
    by (simp add: inputs_present_def coinbase_inputs_mature_def input_values_in_range_def
        sum_in_def)
  show ?thesis
  proof (cases "check_inputs_loop M view h (inputs tx) 0")
    case (Inl e)
    with loop show ?thesis by (auto simp: check_tx_inputs_def)
  next
    case (Inr s)
    have s: "s = sum_in view tx" using loop_result [OF Inr] by (simp add: sum_in_def)
    from loop Inr show ?thesis
      by (auto simp: check_tx_inputs_def s money_range_def)
  qed
next
  case False
  have l: "\<not> (\<exists>fee. check_tx_inputs M tx view h = Inr fee)"
    using False by (auto simp: check_tx_inputs_def money_range_def split: sum.splits if_splits)
  have "\<not> (input_values_in_range M view tx \<and> sum_in view tx \<le> M)"
    using False sum_nonneg [of M view "inputs tx"]
    by (auto simp: input_values_in_range_def sum_in_def)
  with l show ?thesis by blast
qed

lemma check_fee:
  "check_tx_inputs M tx view h = Inr fee \<Longrightarrow> fee = sum_in view tx - sum_out tx"
  by (auto simp: check_tx_inputs_def sum_in_def split: sum.splits if_splits dest: loop_result)

text \<open>
  C2, as the claim states it, fails: with a coin of value -5 and a coin of value 10 in the
  view, a transaction that spends both to one output of 5 has every input present, a sum
  of inputs (5) within \<open>[sum_out, MAX_MONEY]\<close> and no coinbase input, yet the checker
  rejects it at the first coin, whose value is outside \<open>[0, MAX_MONEY]\<close>.
\<close>

theorem check_tx_inputs_claim_fails:
  "claimed_ok 2100000000000000 negative_coin_spend negative_coin_view 200
   \<and> check_tx_inputs 2100000000000000 negative_coin_spend negative_coin_view 200
       = Inl (CONSENSUS INPUT_VALUES_OUT_OF_RANGE)"
  by (simp add: claimed_ok_def inputs_present_def sum_out_def sum_in_def input_value_def
      coinbase_inputs_mature_def coin_mature_def check_tx_inputs_def money_range_def
      negative_coin_spend_def negative_coin_view_def)

text \<open>
  C2, amended. \<open>check_tx_inputs\<close> returns Ok exactly when every input's prevout is
  present in the view, every input coin's value lies in \<open>[0, MAX_MONEY]\<close>, the sum of
  the input values lies in \<open>[sum_out, MAX_MONEY]\<close>, the difference
  \<open>sum_in - sum_out\<close> is at most \<open>MAX_MONEY\<close>, and every coinbase input has
  \<open>spend_height - coin.height \<ge> 100\<close>. When the input coins' values lie in
  \<open>[0, MAX_MONEY]\<close> and \<open>sum_out \<ge> 0\<close>, this is the condition of the claim. On
  success the fee is \<open>sum_in - sum_out\<close>. A coinbase coin spent alone to outputs of
  its own value is accepted with fee 0 at \<open>spend_height - coin.height = 100\<close> and is a
  \<open>PREMATURE_SPEND\<close> at 99.
\<close>

theorem check_tx_inputs_ok_iff:
  "((\<exists>fee. check_tx_inputs M tx view h = Inr fee) =
      (inputs_present view tx \<and> input_values_in_range M view tx
       \<and> sum_out tx \<le> sum_in view tx \<and> sum_in view tx \<le> M
       \<and> sum_in view tx - sum_out tx \<le> M
       \<and> coinbase_inputs_mature view tx h))
   \<and> (input_values_in_range M view tx \<and> 0 \<le> sum_out tx \<longrightarrow>
        (\<exists>fee. check_tx_inputs M tx view h = Inr fee) = claimed_ok M tx view h)
   \<and> (check_tx_inputs M tx view h = Inr fee \<longrightarrow> fee = sum_in view tx - sum_out tx)
   \<and> (inputs tx = [prevout] \<and> view prevout = Some coin \<and> is_coinbase coin
        \<and> money_range M (coin_value coin) \<and> sum_out tx = coin_value coin \<longrightarrow>
        (h - coin_height coin = 100 \<longrightarrow> check_tx_inputs M tx view h = Inr 0)
        \<and> (h - coin_height coin = 99 \<longrightarrow> check_tx_inputs M tx view h = Inl PREMATURE_SPEND))"
proof (intro conjI impI)
  show "(\<exists>fee. check_tx_inputs M tx view h = Inr fee) =
      (inputs_present view tx \<and> input_values_in_range M view tx
       \<and> sum_out tx \<le> sum_in view tx \<and> sum_in view tx \<le> M
       \<and> sum_in view tx - sum_out tx \<le> M
       \<and> coinbase_inputs_mature view tx h)"
    by (rule check_ok_iff)
next
  assume "input_values_in_range M view tx \<and> 0 \<le> sum_out tx"
  then show "(\<exists>fee. check_tx_inputs M tx view h = Inr fee) = claimed_ok M tx view h"
    unfolding check_ok_iff claimed_ok_def by auto
next
  assume "check_tx_inputs M tx view h = Inr fee"
  then show "fee = sum_in view tx - sum_out tx" by (rule check_fee)
next
  assume a: "inputs tx = [prevout] \<and> view prevout = Some coin \<and> is_coinbase coin
        \<and> money_range M (coin_value coin) \<and> sum_out tx = coin_value coin"
    and b: "h - coin_height coin = 100"
  then show "check_tx_inputs M tx view h = Inr 0"
    by (simp add: check_tx_inputs_def COINBASE_MATURITY_def money_range_def)
next
  assume a: "inputs tx = [prevout] \<and> view prevout = Some coin \<and> is_coinbase coin
        \<and> money_range M (coin_value coin) \<and> sum_out tx = coin_value coin"
    and b: "h - coin_height coin = 99"
  then show "check_tx_inputs M tx view h = Inl PREMATURE_SPEND"
    by (simp add: check_tx_inputs_def COINBASE_MATURITY_def)
qed

theorem check_tx_inputs_ok_iff_witness:
  "inputs coinbase_spend = [(1, 0)]
   \<and> is_coinbase (the (coinbase_view (1, 0)))
   \<and> input_values_in_range 2100000000000000 coinbase_view coinbase_spend
   \<and> 0 \<le> sum_out coinbase_spend
   \<and> claimed_ok 2100000000000000 coinbase_spend coinbase_view 200
   \<and> check_tx_inputs 2100000000000000 coinbase_spend coinbase_view 200 = Inr 0
   \<and> \<not> claimed_ok 2100000000000000 coinbase_spend coinbase_view 199
   \<and> check_tx_inputs 2100000000000000 coinbase_spend coinbase_view 199 = Inl PREMATURE_SPEND"
proof -
  let ?c = "\<lparr> coin_value = 50 * COIN, coin_script = [0x51], coin_height = 100,
              is_coinbase = True \<rparr>"
  have pre: "inputs coinbase_spend = [(1, 0)] \<and> coinbase_view (1, 0) = Some ?c \<and> is_coinbase ?c
        \<and> money_range 2100000000000000 (coin_value ?c) \<and> sum_out coinbase_spend = coin_value ?c"
    by (simp add: coinbase_spend_def coinbase_view_def money_range_def sum_out_def COIN_def)
  have rng: "input_values_in_range 2100000000000000 coinbase_view coinbase_spend
               \<and> 0 \<le> sum_out coinbase_spend"
    by (simp add: input_values_in_range_def input_value_def coinbase_spend_def coinbase_view_def
        money_range_def sum_out_def COIN_def)
  have h200: "200 - coin_height ?c = 100" and h199: "199 - coin_height ?c = 99" by simp_all
  from check_tx_inputs_ok_iff [of 2100000000000000 coinbase_spend coinbase_view 200 0 "(1, 0)" ?c]
    check_tx_inputs_ok_iff [of 2100000000000000 coinbase_spend coinbase_view 199 0 "(1, 0)" ?c]
    pre rng h200 h199
  show ?thesis by (auto simp: coinbase_view_def)
qed

section \<open>Retarget bounds\<close>

subsection \<open>The compact format never rounds up\<close>














subsection \<open>The retarget step\<close>



















section \<open>Acquisition priorities and timeouts\<close>









lemma critical_engine_failure:
  "fst (Acquire failing_engine 1 CONSENSUS_CRITICAL 0 (empty_pool 2) []) = Failed"
  by (simp add: Acquire_def yield_step_def ShouldYieldToHigherPriority_def add_waiter_def
      empty_pool_def FindOrCreateContext_def failing_engine_def)



end
